theory Spec2Isabelle
  imports Main
begin

section \<open>Python values, exceptions and list operations\<close>

text \<open>
  Values that handlers receive: \<open>None\<close>, strings, integers, booleans and opaque objects
  (members, channels) named by a number. An exception is a value of \<open>pyexc\<close>; a
  computation that may raise returns \<open>pyexc + 'a\<close> with \<open>Inl\<close> for the raise.
\<close>

datatype pyval = PNone | PStr string | PInt int | PBool bool | PObj nat

datatype pyexc =
    TypeError string
  | ValueError string
  | IndexError string
  | ImportError string
  | SyntaxError string
  | AttributeError string
  | PyException string

fun is_TypeError :: "pyexc \<Rightarrow> bool" where
  "is_TypeError (TypeError m) = True"
| "is_TypeError e = False"

fun is_ImportError :: "pyexc \<Rightarrow> bool" where
  "is_ImportError (ImportError m) = True"
| "is_ImportError e = False"

text \<open>The truth value of a Python value in a boolean test.\<close>

fun truthy :: "pyval \<Rightarrow> bool" where
  "truthy PNone = False"
| "truthy (PStr s) = (s \<noteq> [])"
| "truthy (PInt n) = (n \<noteq> 0)"
| "truthy (PBool b) = b"
| "truthy (PObj a) = True"

text \<open>Python's \<open>xs[-1]\<close>: the last element, \<open>IndexError\<close> on the empty list.\<close>

definition py_last :: "'a list \<Rightarrow> pyexc + 'a" where
  "py_last xs = (if xs = [] then Inl (IndexError ''list index out of range'') else Inr (last xs))"

text \<open>
  Python's \<open>xs[a:b]\<close>: a negative bound counts from the end, and every bound is clipped
  to the list. The bound \<open>-0\<close> is the integer \<open>0\<close>.
\<close>

definition slice_bound :: "nat \<Rightarrow> int \<Rightarrow> nat" where
  "slice_bound n i = (if i < 0 then nat (max (int n + i) 0) else min (nat i) n)"

definition py_slice :: "'a list \<Rightarrow> int \<Rightarrow> int \<Rightarrow> 'a list" where
  "py_slice xs a b =
     (let s = slice_bound (length xs) a; e = slice_bound (length xs) b
      in take (e - s) (drop s xs))"

text \<open>\<open>d[k] = v\<close> on a dict kept as an association list.\<close>

fun dict_set :: "('k \<times> 'v) list \<Rightarrow> 'k \<Rightarrow> 'v \<Rightarrow> ('k \<times> 'v) list" where
  "dict_set [] k v = [(k, v)]"
| "dict_set ((k', v') # d) k v = (if k' = k then (k, v) # d else (k', v') # dict_set d k v)"

section \<open>Signatures, handlers, commands and messages\<close>

text \<open>
  \<open>inspect.Parameter\<close>: its name, kind, annotation and default (\<open>None\<close> of the option
  type is \<open>Parameter.empty\<close>). The annotation objects the binder tells apart are the
  members of \<open>pcbot.utils.Annotate\<close>, the classes \<open>discord.Client\<close> and
  \<open>discord.Message\<close>, an object that is false in a boolean test (\<open>Falsy\<close>), and any
  other object (\<open>Func f\<close>), where \<open>f\<close> is what calling the object on a token does: it
  returns a value or raises (a non-callable object raises \<open>TypeError\<close>).
\<close>

datatype parameter_kind =
  POSITIONAL_ONLY | POSITIONAL_OR_KEYWORD | VAR_POSITIONAL | KEYWORD_ONLY | VAR_KEYWORD

datatype annotation =
    Annotate_Content
  | Annotate_LowerContent
  | Annotate_CleanContent
  | Annotate_LowerCleanContent
  | Annotate_Member
  | Annotate_Channel
  | Annotate_Code
  | DiscordClient
  | DiscordMessage
  | Falsy
  | Func "string \<Rightarrow> pyexc + pyval"

fun is_DiscordClient :: "annotation \<Rightarrow> bool" where
  "is_DiscordClient DiscordClient = True"
| "is_DiscordClient a = False"

fun is_DiscordMessage :: "annotation \<Rightarrow> bool" where
  "is_DiscordMessage DiscordMessage = True"
| "is_DiscordMessage a = False"

record param =
  pname :: string
  kind :: parameter_kind
  annotation :: annotation
  default_value :: "pyval option"

text \<open>A handler function: \<open>__name__\<close>, \<open>__doc__\<close>, the module it lives in, its signature.\<close>

record pyfunc =
  func_name :: string
  func_doc :: "string option"
  func_module :: string
  signature :: "param list"

text \<open>
  The namedtuple \<open>Command\<close>. Its field \<open>sub_commands\<close> is a mutable list object shared
  by every reference to the command, so it is kept as the address of that list in a store
  \<open>nat \<Rightarrow> command list\<close>; the other fields are immutable.
\<close>

datatype command = Command
  (name: string)
  (usage: "string option")
  (description: string)
  (func: pyfunc)
  (sub_commands: nat)
  (parent: "command option")
  (hidden: bool)
  (error: "string option")
  (pos_check: "string \<Rightarrow> pyval")

type_synonym store = "nat \<Rightarrow> command list"

text \<open>
  \<open>discord.Message\<close>: \<open>author\<close> is the identity of the author, \<open>author_str\<close> the text
  that \<open>format\<close> prints for it.
\<close>

record message =
  author :: nat
  author_str :: string
  content :: string
  clean_content :: string
  server :: nat
  channel :: nat

text \<open>
  A plugin module as the dispatcher and the manager see it: its name, its \<open>on_message\<close>
  attribute when it has one (what the hook returns or raises for a message and its
  tokens), and whether it has an attribute \<open>cmd_help\<close>.
\<close>

record pymodule =
  mod_name :: string
  on_message_attr :: "(message \<Rightarrow> string list \<Rightarrow> pyexc + pyval) option"
  has_cmd_help :: bool

text \<open>
  The collaborators that are not part of the sources at hand, taken as parameters:
  the functions of \<open>pcbot.utils\<close>, \<open>importlib.import_module\<close>, the string method
  \<open>lower\<close>, what calling the classes \<open>discord.Client\<close> and \<open>discord.Message\<close> on one
  argument does, and the user the client is logged in as.
\<close>

record env =
  utils_split :: "string \<Rightarrow> int option \<Rightarrow> pyexc + string list"
  utils_find_member :: "nat \<Rightarrow> string \<Rightarrow> pyexc + pyval"
  utils_find_channel :: "nat \<Rightarrow> string \<Rightarrow> pyexc + pyval"
  utils_get_formatted_code :: "string \<Rightarrow> pyexc + pyval"
  utils_get_command :: "pymodule \<Rightarrow> string \<Rightarrow> command option"
  utils_command_prefix :: string
  utils_format_exception :: "pyexc \<Rightarrow> string"
  import_module :: "string \<Rightarrow> pyexc + pymodule"
  str_lower :: "string \<Rightarrow> string"
  call_discord_Client :: "string \<Rightarrow> pyexc + pyval"
  call_discord_Message :: "string \<Rightarrow> pyexc + pyval"
  client_user :: nat

section \<open>bot.py: parse_annotation\<close>

text \<open>\<open>utils.split(text, maxsplit=index)[-1]\<close>\<close>

definition split_tail :: "env \<Rightarrow> string \<Rightarrow> int \<Rightarrow> pyexc + string" where
  "split_tail e text i =
     (case utils_split e text (Some i) of Inl x \<Rightarrow> Inl x | Inr parts \<Rightarrow> py_last parts)"

text \<open>
  The \<open>try\<close> block: \<open>TypeError\<close> is raised again with a fixed message, any other
  exception gives \<open>None\<close>.
\<close>

definition try_call :: "(string \<Rightarrow> pyexc + pyval) \<Rightarrow> string \<Rightarrow> pyexc + pyval" where
  "try_call anno arg =
     (case anno arg of
        Inr v \<Rightarrow> Inr v
      | Inl x \<Rightarrow>
          if is_TypeError x
          then Inl (TypeError ''Command parameter annotation must be either pcbot.utils.Annotate or a function'')
          else Inr PNone)"

definition parse_annotation :: "env \<Rightarrow> param \<Rightarrow> string \<Rightarrow> int \<Rightarrow> message \<Rightarrow> pyexc + pyval" where
  "parse_annotation e p arg i m =
     (case annotation p of
        Falsy \<Rightarrow> Inr (PStr arg)
      | Annotate_Content \<Rightarrow> map_sum id PStr (split_tail e (content m) i)
      | Annotate_LowerContent \<Rightarrow> map_sum id (PStr \<circ> str_lower e) (split_tail e (content m) i)
      | Annotate_CleanContent \<Rightarrow> map_sum id PStr (split_tail e (clean_content m) i)
      | Annotate_LowerCleanContent \<Rightarrow>
          map_sum id (PStr \<circ> str_lower e) (split_tail e (clean_content m) i)
      | Annotate_Member \<Rightarrow> utils_find_member e (server m) arg
      | Annotate_Channel \<Rightarrow> utils_find_channel e (server m) arg
      | Annotate_Code \<Rightarrow>
          (case split_tail e (content m) i of
             Inl x \<Rightarrow> Inl x
           | Inr code \<Rightarrow> utils_get_formatted_code e code)
      | DiscordClient \<Rightarrow> try_call (call_discord_Client e) arg
      | DiscordMessage \<Rightarrow> try_call (call_discord_Message e) arg
      | Func f \<Rightarrow> try_call f arg)"

section \<open>bot.py: parse_command_args\<close>

text \<open>The local variables of \<open>parse_command_args\<close> that the loop updates.\<close>

record bind_state =
  index :: int
  args :: "pyval list"
  kwargs :: "(string \<times> pyval) list"
  has_pos :: bool
  num_pos_args :: nat

text \<open>
  How the loop over the parameters is left: it ran through every parameter, it hit
  \<open>break\<close>, or the function returned from inside the loop (\<open>return args, kwargs, False\<close>).
\<close>

datatype loop_exit = Completed bind_state | Broke bind_state | ForceQuit bind_state

text \<open>
  The inner loop of the \<open>VAR_POSITIONAL\<close> branch, over the sliced tokens: a token whose
  annotation gives \<open>None\<close> is skipped, an exception of the annotation propagates.
\<close>

fun var_loop :: "env \<Rightarrow> param \<Rightarrow> int \<Rightarrow> message \<Rightarrow> string list \<Rightarrow> bind_state \<Rightarrow> pyexc + bind_state" where
  "var_loop e p i m [] st = Inr st"
| "var_loop e p i m (cmd_arg # rest) st =
     (case parse_annotation e p cmd_arg i m of
        Inl x \<Rightarrow> Inl x
      | Inr tmp_arg \<Rightarrow>
          var_loop e p i m rest
            (if tmp_arg \<noteq> PNone
             then st\<lparr>args := args st @ [tmp_arg], num_pos_args := num_pos_args st + 1\<rparr>
             else st))"

text \<open>Binding the default of a parameter for which no token is left.\<close>

definition bind_default :: "param \<Rightarrow> pyval \<Rightarrow> bind_state \<Rightarrow> bind_state" where
  "bind_default p d st =
     (if kind p = POSITIONAL_OR_KEYWORD then st\<lparr>args := args st @ [d]\<rparr>
      else if kind p = KEYWORD_ONLY then st\<lparr>kwargs := dict_set (kwargs st) (pname p) d\<rparr>
      else st)"

text \<open>
  The loop \<open>for arg, param in signature.parameters.items()\<close>, on the parameters still to
  visit. \<open>st0\<close> is the state before \<open>index += 1\<close>.
\<close>

fun params_loop ::
  "env \<Rightarrow> message \<Rightarrow> string list \<Rightarrow> int \<Rightarrow> nat \<Rightarrow> param list \<Rightarrow> bind_state \<Rightarrow> pyexc + loop_exit" where
  "params_loop e m cmd_args start_index num_kwargs [] st0 = Inr (Completed st0)"
| "params_loop e m cmd_args start_index num_kwargs (p # ps) st0 =
     (let st = st0\<lparr>index := index st0 + 1\<rparr> in
      if index st = 0 then
        (if \<not> is_DiscordClient (annotation p)
         then Inl (PyException ''First command parameter must be of type discord.Client'')
         else params_loop e m cmd_args start_index num_kwargs ps st)
      else if index st = 1 then
        (if \<not> is_DiscordMessage (annotation p)
         then Inl (PyException ''Second command parameter must be of type discord.Message'')
         else params_loop e m cmd_args start_index num_kwargs ps st)
      else if index st \<le> int (length cmd_args) then
        (let cmd_arg = cmd_args ! nat (index st - 1) in
         if kind p = POSITIONAL_OR_KEYWORD then
           (case parse_annotation e p cmd_arg ((index st - 1) + start_index) m of
              Inl x \<Rightarrow> Inl x
            | Inr tmp_arg \<Rightarrow>
                if tmp_arg \<noteq> PNone
                then params_loop e m cmd_args start_index num_kwargs ps (st\<lparr>args := args st @ [tmp_arg]\<rparr>)
                else (case default_value p of
                        Some d \<Rightarrow> params_loop e m cmd_args start_index num_kwargs ps (st\<lparr>args := args st @ [d]\<rparr>)
                      | None \<Rightarrow> Inr (ForceQuit st)))
         else if kind p = KEYWORD_ONLY then
           (case parse_annotation e p cmd_arg ((index st - 1) + start_index) m of
              Inl x \<Rightarrow> Inl x
            | Inr tmp_arg \<Rightarrow>
                if tmp_arg \<noteq> PNone
                then params_loop e m cmd_args start_index num_kwargs ps
                       (st\<lparr>kwargs := dict_set (kwargs st) (pname p) tmp_arg\<rparr>)
                else (case default_value p of
                        Some d \<Rightarrow> params_loop e m cmd_args start_index num_kwargs ps
                                    (st\<lparr>kwargs := dict_set (kwargs st) (pname p) d\<rparr>)
                      | None \<Rightarrow> Inr (ForceQuit st)))
         else if kind p = VAR_POSITIONAL then
           (case var_loop e p (index st + start_index) m
                   (py_slice cmd_args (index st - 1) (- int num_kwargs)) (st\<lparr>has_pos := True\<rparr>) of
              Inl x \<Rightarrow> Inl x
            | Inr st' \<Rightarrow>
                params_loop e m cmd_args start_index num_kwargs ps
                  (st'\<lparr>index := index st' +
                       (if num_pos_args st' \<noteq> 0 then int (num_pos_args st') - 1 else 0)\<rparr>))
         else params_loop e m cmd_args start_index num_kwargs ps st)
      else
        (case default_value p of
           Some d \<Rightarrow> params_loop e m cmd_args start_index num_kwargs ps (bind_default p d st)
         | None \<Rightarrow> Inr (Broke (st\<lparr>index := index st - 1\<rparr>))))"

text \<open>The code after the loop: the count of required arguments and the verdict.\<close>

definition after_loop :: "param list \<Rightarrow> bind_state \<Rightarrow> pyval list \<times> (string \<times> pyval) list \<times> bool" where
  "after_loop sig st =
     (let num_args = int (length sig) - 2;
          num_args = (if has_pos st then num_args - (if num_pos_args st = 0 then 1 else 0) else num_args);
          num_given = index st - 1
      in (args st, kwargs st, num_given = num_args))"

definition init_state :: bind_state where
  "init_state = \<lparr>index = - 1, args = [], kwargs = [], has_pos = False, num_pos_args = 0\<rparr>"

text \<open>What the function returns or raises, from the way the loop was left.\<close>

definition conclude ::
  "param list \<Rightarrow> pyexc + loop_exit \<Rightarrow> pyexc + (pyval list \<times> (string \<times> pyval) list \<times> bool)" where
  "conclude sig r =
     (case r of
        Inl x \<Rightarrow> Inl x
      | Inr (ForceQuit st) \<Rightarrow> Inr (args st, kwargs st, False)
      | Inr (Broke st) \<Rightarrow> Inr (after_loop sig st)
      | Inr (Completed st) \<Rightarrow> Inr (after_loop sig st))"

definition count_kwargs :: "param list \<Rightarrow> nat" where
  "count_kwargs sig = length (filter (\<lambda>p. kind p = KEYWORD_ONLY) sig)"

definition parse_command_args ::
  "env \<Rightarrow> command \<Rightarrow> string list \<Rightarrow> int \<Rightarrow> message \<Rightarrow> pyexc + (pyval list \<times> (string \<times> pyval) list \<times> bool)" where
  "parse_command_args e cmd cmd_args start_index m =
     (let sig = signature (func cmd);
          num_kwargs = count_kwargs sig
      in conclude sig (params_loop e m cmd_args start_index num_kwargs sig init_state))"

text \<open>The third component of the binder's result, when it returns one.\<close>

definition complete :: "pyexc + (pyval list \<times> (string \<times> pyval) list \<times> bool) \<Rightarrow> bool" where
  "complete r = (case r of Inl x \<Rightarrow> False | Inr (a, k, c) \<Rightarrow> c)"

text \<open>
  An annotation yields a value for a token when \<open>parse_annotation\<close> returns something
  other than \<open>None\<close> (and does not raise).
\<close>

definition yields :: "env \<Rightarrow> param \<Rightarrow> string \<Rightarrow> int \<Rightarrow> message \<Rightarrow> bool" where
  "yields e p tok i m = (case parse_annotation e p tok i m of Inl x \<Rightarrow> False | Inr v \<Rightarrow> v \<noteq> PNone)"

section \<open>bot.py: get_sub_command\<close>

text \<open>\<open>names.index(arg)\<close>, used only when \<open>arg in names\<close>.\<close>

fun list_index :: "'a list \<Rightarrow> 'a \<Rightarrow> nat" where
  "list_index [] a = 0"
| "list_index (x # xs) a = (if x = a then 0 else Suc (list_index xs a))"

text \<open>One turn of the loop over \<open>cmd_args[1:]\<close>, on the pair \<open>(command, new_index)\<close>.\<close>

definition sub_step :: "store \<Rightarrow> command \<times> nat \<Rightarrow> string \<Rightarrow> command \<times> nat" where
  "sub_step h cn arg =
     (let names = map name (h (sub_commands (fst cn)))
      in if arg \<in> set names
         then (h (sub_commands (fst cn)) ! list_index names arg, snd cn + 1)
         else cn)"

definition get_sub_command :: "store \<Rightarrow> command \<Rightarrow> string list \<Rightarrow> command \<times> string list \<times> nat" where
  "get_sub_command h cmd cmd_args =
     (let cn = foldl (sub_step h) (cmd, 0) (py_slice cmd_args 1 (int (length cmd_args)))
      in (fst cn, drop (snd cn) cmd_args, snd cn))"

section \<open>Python string methods\<close>

text \<open>
  Characters are code points below 256. \<open>str.isspace\<close> holds there for the code points
  9 to 13, 28 to 32, 133 and 160; \<open>strip()\<close> removes such characters at both ends.
\<close>

definition is_space :: "char \<Rightarrow> bool" where
  "is_space c = (let n = (of_char c :: nat) in (9 \<le> n \<and> n \<le> 13) \<or> (28 \<le> n \<and> n \<le> 32) \<or> n = 133 \<or> n = 160)"

definition py_strip :: "string \<Rightarrow> string" where
  "py_strip s = rev (dropWhile is_space (rev (dropWhile is_space s)))"

definition py_startswith :: "string \<Rightarrow> string \<Rightarrow> bool" where
  "py_startswith s pre = (take (length pre) s = pre)"

definition py_endswith :: "string \<Rightarrow> string \<Rightarrow> bool" where
  "py_endswith s suf = (length suf \<le> length s \<and> drop (length s - length suf) s = suf)"

text \<open>\<open>s.split(sep)\<close> for a separator of one character: never the empty list.\<close>

fun py_split :: "char \<Rightarrow> string \<Rightarrow> string list" where
  "py_split sep [] = [[]]"
| "py_split sep (c # cs) =
     (if c = sep then [] # py_split sep cs
      else (case py_split sep cs of [] \<Rightarrow> [[c]] | l # ls \<Rightarrow> (c # l) # ls))"

definition newline :: char where
  "newline = CHR 0x0A"

section \<open>plugins/__init__.py: the command decorator\<close>

text \<open>The keyword options of \<open>command(**options)\<close>; \<open>None\<close> is a key that is not given.\<close>

record options =
  opt_name :: "string option"
  opt_hidden :: "bool option"
  opt_parent :: "command option"
  opt_error :: "string option"
  opt_pos_check :: "(string \<Rightarrow> pyval) option"
  opt_description :: "string option"
  opt_usage :: "string option"

text \<open>
  The attribute \<open>__commands\<close> of a plugin module: not there, there with a value that is
  not a list, or a list of commands.
\<close>

datatype commands_attr = NoAttr | NotAList | CommandList "command list"

datatype log_level = DEBUG | INFO | WARNING

text \<open>
  What registration reads and writes: the \<open>__commands\<close> attribute of every module (by
  module name), the store of the \<open>sub_commands\<close> lists with the next free address, and
  the log.
\<close>

record registry =
  commands_of :: "string \<Rightarrow> commands_attr"
  lists :: store
  next_list :: nat
  reg_log :: "(log_level \<times> string) list"

text \<open>The loop that rewrites a docstring, \<open>new_desc\<close> being the accumulator.\<close>

definition format_line :: "string \<Rightarrow> string \<Rightarrow> string" where
  "format_line new_desc line =
     (if py_endswith line ''  /'' then new_desc @ py_strip (py_slice line 0 (- 1)) @ [newline]
      else if py_strip line = [] then new_desc @ [newline, newline]
      else new_desc @ py_strip line @ '' '')"

definition format_docstring :: "string \<Rightarrow> string" where
  "format_docstring d = foldl format_line [] (py_split newline d)"

text \<open>\<open>options.get("description") or func.__doc__ or "Undocumented."\<close>\<close>

definition raw_description :: "options \<Rightarrow> pyfunc \<Rightarrow> string" where
  "raw_description opts f =
     (case opt_description opts of
        Some d \<Rightarrow> if d \<noteq> [] then d
                  else (case func_doc f of Some doc \<Rightarrow> if doc \<noteq> [] then doc else ''Undocumented.''
                        | None \<Rightarrow> ''Undocumented.'')
      | None \<Rightarrow> (case func_doc f of Some doc \<Rightarrow> if doc \<noteq> [] then doc else ''Undocumented.''
                 | None \<Rightarrow> ''Undocumented.''))"

definition make_description :: "options \<Rightarrow> pyfunc \<Rightarrow> string" where
  "make_description opts f =
     (let d = raw_description opts f
      in if Some d = func_doc f then format_docstring d else d)"

definition make_usage :: "env \<Rightarrow> options \<Rightarrow> string \<Rightarrow> string option" where
  "make_usage e opts nm =
     (case opt_parent opts of
        None \<Rightarrow> Some (utils_command_prefix e @ nm @ '' '' @ (case opt_usage opts of Some u \<Rightarrow> u | None \<Rightarrow> []))
      | Some p \<Rightarrow> None)"

text \<open>
  \<open>decorator(func)\<close> inside \<open>command(**options)\<close>. It returns the new command (the value
  that \<open>func.command\<close> passes on as \<open>parent\<close>) and the registry after the call, or raises;
  nothing is written before the last check, so a raise leaves the registry as it was.
  Wrapping the handler with \<open>asyncio.coroutine\<close> keeps its name, docstring and module
  and is left out. A \<open>Command\<close> tuple is never false, so \<open>if parent\<close> asks whether a
  parent was given.
\<close>

definition decorator :: "env \<Rightarrow> options \<Rightarrow> pyfunc \<Rightarrow> registry \<Rightarrow> pyexc + (command \<times> registry)" where
  "decorator e opts f r =
     (let nm = (case opt_name opts of Some n \<Rightarrow> n | None \<Rightarrow> func_name f);
          hid = (case opt_hidden opts of Some b \<Rightarrow> b | None \<Rightarrow> False);
          pc = (case opt_pos_check opts of Some c \<Rightarrow> c | None \<Rightarrow> PStr);
          descr = make_description opts f;
          usg = make_usage e opts nm;
          plugin = func_module f
      in case (case commands_of r plugin of NoAttr \<Rightarrow> Some [] | NotAList \<Rightarrow> None | CommandList cs \<Rightarrow> Some cs) of
           None \<Rightarrow> Inl (PyException ''__commands is reserved for the plugin's commands, and must be of type list'')
         | Some commands \<Rightarrow>
             if \<exists>c \<in> set commands. name c = nm
             then Inl (PyException ''You can't assign two commands with the same name'')
             else
               (let cmd = Command nm usg descr f (next_list r) (opt_parent opts) hid (opt_error opts) pc;
                    r1 = r\<lparr>lists := (lists r)(next_list r := []), next_list := next_list r + 1\<rparr>;
                    r2 = (case opt_parent opts of
                            Some p \<Rightarrow> r1\<lparr>lists := (lists r1)(sub_commands p := lists r1 (sub_commands p) @ [cmd]),
                                           commands_of := (commands_of r1)(plugin := CommandList commands)\<rparr>
                          | None \<Rightarrow> r1\<lparr>commands_of := (commands_of r1)(plugin := CommandList (commands @ [cmd]))\<rparr>)
                in Inr (cmd, r2\<lparr>reg_log := reg_log r2 @
                      [(DEBUG, ''Registered '' @ (if opt_parent opts \<noteq> None then ''subcommand'' else ''command'')
                          @ '' '' @ nm @ '' from plugin '' @ plugin)]\<rparr>)))"

section \<open>plugins/__init__.py: load_plugin and unload_plugin\<close>

text \<open>The module variable \<open>plugins\<close> (a dict, kept as an association list) and the log.\<close>

record manager =
  plugins :: "(string \<times> pymodule) list"
  mgr_log :: "(log_level \<times> string) list"

definition load_plugin :: "env \<Rightarrow> string \<Rightarrow> string \<Rightarrow> manager \<Rightarrow> pyexc + (bool \<times> manager)" where
  "load_plugin e nm package mg =
     (if \<not> py_startswith nm ''__'' \<or> \<not> py_endswith nm ''__'' then
        (case import_module e (package @ ''.'' @ nm) of
           Inl x \<Rightarrow>
             if is_ImportError x
             then Inr (False, mg\<lparr>mgr_log := mgr_log mg @
                    [(WARNING, ''COULD NOT LOAD PLUGIN '' @ nm @ [newline] @ utils_format_exception e x)]\<rparr>)
             else Inl x
         | Inr plugin \<Rightarrow>
             Inr (True, mg\<lparr>plugins := dict_set (plugins mg) nm plugin,
                           mgr_log := mgr_log mg @ [(DEBUG, ''LOADED PLUGIN '' @ nm)]\<rparr>))
      else Inr (False, mg))"

definition unload_plugin :: "string \<Rightarrow> manager \<Rightarrow> manager" where
  "unload_plugin nm mg =
     (if nm \<in> fst ` set (plugins mg)
      then mg\<lparr>plugins := filter (\<lambda>kv. fst kv \<noteq> nm) (plugins mg),
              mgr_log := mgr_log mg @ [(DEBUG, ''UNLOADED PLUGIN '' @ nm)]\<rparr>
      else mg)"

section \<open>bot.py: parse_command, on_plugin_message and on_message\<close>

text \<open>
  What the dispatcher does to the outside, in order: a log record, a message sent to a
  channel, the help response of the builtin plugin, a task handed to the event loop.
  A task is created, not run: when and in what order tasks run is the event loop's matter.
\<close>

datatype task =
    CommandTask command "pyval list" "(string \<times> pyval) list"
  | PluginMessageTask string "string list"

datatype effect =
    LogRecord log_level string
  | SendMessage nat string
  | CmdHelp string
  | CreateTask task

definition log_message :: "message \<Rightarrow> string \<Rightarrow> effect" where
  "log_message m prefix = LogRecord INFO (prefix @ ''@'' @ author_str m @ '' -> '' @ content m)"

text \<open>The body of the task that runs a plugin's \<open>on_message\<close>.\<close>

definition on_plugin_message ::
  "(message \<Rightarrow> string list \<Rightarrow> pyexc + pyval) \<Rightarrow> message \<Rightarrow> string list \<Rightarrow> pyexc + effect list" where
  "on_plugin_message function m as =
     (case function m as of
        Inl x \<Rightarrow> Inl x
      | Inr success \<Rightarrow> Inr (if truthy success then [log_message m ''... ''] else []))"

definition get_plugin :: "(string \<times> pymodule) list \<Rightarrow> string \<Rightarrow> pymodule option" where
  "get_plugin ps nm = map_of ps nm"

text \<open>
  \<open>parse_command\<close> returns the effects it had and either the exception it raised or its
  result. Sending a message is taken to succeed.
\<close>

definition parse_command ::
  "env \<Rightarrow> store \<Rightarrow> (string \<times> pymodule) list \<Rightarrow> command \<Rightarrow> string \<Rightarrow> string list \<Rightarrow> message
     \<Rightarrow> effect list \<times> (pyexc + (command option \<times> pyval list \<times> (string \<times> pyval) list))" where
  "parse_command e h ps cmd0 cmd cmd_args0 m =
     (case get_sub_command h cmd0 cmd_args0 of
        (command, cmd_args, start_index) \<Rightarrow>
          (case parse_command_args e command cmd_args (int start_index) m of
             Inl x \<Rightarrow> ([], Inl x)
           | Inr (as, ks, compl) \<Rightarrow>
               if \<not> compl then
                 (case error command of
                    Some err \<Rightarrow>
                      if err \<noteq> [] then ([log_message m [], SendMessage (channel m) err], Inr (None, as, ks))
                      else (case get_plugin ps ''builtin'' of
                              None \<Rightarrow> ([log_message m []], Inl (AttributeError ''cmd_help''))
                            | Some b \<Rightarrow>
                                if has_cmd_help b then ([log_message m [], CmdHelp cmd], Inr (None, as, ks))
                                else ([log_message m []], Inl (AttributeError ''cmd_help'')))
                  | None \<Rightarrow>
                      (case get_plugin ps ''builtin'' of
                         None \<Rightarrow> ([log_message m []], Inl (AttributeError ''cmd_help''))
                       | Some b \<Rightarrow>
                           if has_cmd_help b then ([log_message m [], CmdHelp cmd], Inr (None, as, ks))
                           else ([log_message m []], Inl (AttributeError ''cmd_help''))))
               else ([], Inr (Some command, as, ks))))"

text \<open>The part of the loop body under \<open>if cmd:\<close>.\<close>

definition handle_command ::
  "env \<Rightarrow> store \<Rightarrow> (string \<times> pymodule) list \<Rightarrow> string \<Rightarrow> string list \<Rightarrow> message \<Rightarrow> pymodule
     \<Rightarrow> effect list \<times> pyexc option" where
  "handle_command e h ps cmd cmd_args m plugin =
     (if cmd \<noteq> [] then
        (case utils_get_command e plugin cmd of
           None \<Rightarrow> ([], None)
         | Some command \<Rightarrow>
             (case parse_command e h ps command cmd cmd_args m of
                (effs, Inl x) \<Rightarrow> (effs, Some x)
              | (effs, Inr (None, as, ks)) \<Rightarrow> (effs, None)
              | (effs, Inr (Some c, as, ks)) \<Rightarrow>
                  (effs @ [log_message m [], CreateTask (CommandTask c as ks),
                           LogRecord DEBUG ''Time spent parsing comand''], None)))
      else ([], None))"

text \<open>The loop \<open>for plugin in plugins.all_values()\<close>; an exception ends it.\<close>

fun plugins_loop ::
  "env \<Rightarrow> store \<Rightarrow> (string \<times> pymodule) list \<Rightarrow> string \<Rightarrow> string list \<Rightarrow> message \<Rightarrow> pymodule list
     \<Rightarrow> effect list \<times> pyexc option" where
  "plugins_loop e h ps cmd cmd_args m [] = ([], None)"
| "plugins_loop e h ps cmd cmd_args m (plugin # rest) =
     (case handle_command e h ps cmd cmd_args m plugin of
        (effs, Some x) \<Rightarrow> (effs, Some x)
      | (effs, None) \<Rightarrow>
          (let hook = (case on_message_attr plugin of
                         Some f \<Rightarrow> [CreateTask (PluginMessageTask (mod_name plugin) cmd_args)]
                       | None \<Rightarrow> [])
           in case plugins_loop e h ps cmd cmd_args m rest of
                (effs', r) \<Rightarrow> (effs @ hook @ effs', r)))"

definition on_message :: "env \<Rightarrow> store \<Rightarrow> manager \<Rightarrow> message \<Rightarrow> effect list \<times> pyexc option" where
  "on_message e h mg m =
     (if author m = client_user e then ([], None)
      else if content m = [] then ([], None)
      else
        (case utils_split e (content m) None of
           Inl x \<Rightarrow> ([], Some x)
         | Inr cmd_args \<Rightarrow>
             (case cmd_args of
                [] \<Rightarrow> ([], Some (IndexError ''list index out of range''))
              | first # others \<Rightarrow>
                  (let cmd = (if py_startswith first (utils_command_prefix e) \<and> length first > 1
                              then py_slice first 1 (int (length first)) else [])
                   in plugins_loop e h (plugins mg) cmd cmd_args m (map snd (plugins mg))))))"

section \<open>Example handlers, commands and messages\<close>

definition str_coerce :: "string \<Rightarrow> pyexc + pyval" where
  "str_coerce s = Inr (PStr s)"

definition digits_only :: "string \<Rightarrow> pyexc + pyval" where
  "digits_only s =
     (if s \<noteq> [] \<and> list_all (\<lambda>c. c \<in> set ''0123456789'') s then Inr (PStr s)
      else Inl (ValueError ''not a number''))"

definition wrong_type :: "string \<Rightarrow> pyexc + pyval" where
  "wrong_type s = Inl (TypeError ''wrong type'')"

definition space_split :: "string \<Rightarrow> int option \<Rightarrow> pyexc + string list" where
  "space_split s n = Inr (py_split CHR '' '' s)"

definition nothing_found :: "nat \<Rightarrow> string \<Rightarrow> pyexc + pyval" where
  "nothing_found sv a = Inr PNone"

definition no_command :: "pymodule \<Rightarrow> string \<Rightarrow> command option" where
  "no_command plugin cmd = None"

definition missing_module :: "string \<Rightarrow> pyexc + pymodule" where
  "missing_module s = Inl (ImportError (''No module named '' @ s))"

definition broken_module :: "string \<Rightarrow> pyexc + pymodule" where
  "broken_module s = Inl (SyntaxError ''invalid syntax'')"

definition show_exception :: "pyexc \<Rightarrow> string" where
  "show_exception x = ''Traceback''"

definition example_env :: env where
  "example_env =
     \<lparr>utils_split = space_split, utils_find_member = nothing_found, utils_find_channel = nothing_found,
      utils_get_formatted_code = str_coerce, utils_get_command = no_command,
      utils_command_prefix = ''!'', utils_format_exception = show_exception,
      import_module = missing_module, str_lower = id,
      call_discord_Client = wrong_type, call_discord_Message = wrong_type, client_user = 0\<rparr>"

definition broken_env :: env where
  "broken_env = example_env\<lparr>import_module := broken_module\<rparr>"

definition example_message :: message where
  "example_message =
     \<lparr>author = 1, author_str = ''alice'', content = ''!say a b'', clean_content = ''!say a b'',
      server = 0, channel = 0\<rparr>"

definition own_message :: message where
  "own_message = example_message\<lparr>author := 0, author_str := ''bot''\<rparr>"

definition client_param :: param where
  "client_param = \<lparr>pname = ''client'', kind = POSITIONAL_OR_KEYWORD, annotation = DiscordClient, default_value = None\<rparr>"

definition message_param :: param where
  "message_param = \<lparr>pname = ''message'', kind = POSITIONAL_OR_KEYWORD, annotation = DiscordMessage, default_value = None\<rparr>"

definition word_param :: param where
  "word_param = \<lparr>pname = ''word'', kind = POSITIONAL_OR_KEYWORD, annotation = Func str_coerce, default_value = None\<rparr>"

definition words_param :: param where
  "words_param = \<lparr>pname = ''words'', kind = VAR_POSITIONAL, annotation = Func str_coerce, default_value = None\<rparr>"

definition count_param :: param where
  "count_param = \<lparr>pname = ''count'', kind = POSITIONAL_OR_KEYWORD, annotation = Func digits_only, default_value = None\<rparr>"

definition typed_param :: param where
  "typed_param = \<lparr>pname = ''value'', kind = POSITIONAL_OR_KEYWORD, annotation = Func wrong_type, default_value = Some PNone\<rparr>"

definition handler :: "string \<Rightarrow> param list \<Rightarrow> pyfunc" where
  "handler nm sg = \<lparr>func_name = nm, func_doc = None, func_module = ''example'', signature = sg\<rparr>"

definition top_command :: "string \<Rightarrow> param list \<Rightarrow> nat \<Rightarrow> command" where
  "top_command nm sg a = Command nm (Some (''!'' @ nm @ '' '')) ''Undocumented.'' (handler nm sg) a None False None PStr"

definition say_command :: command where
  "say_command = top_command ''say'' [client_param, message_param, words_param] 0"

definition echo_command :: command where
  "echo_command = top_command ''echo'' [client_param, message_param, word_param] 0"

definition repeat_command :: command where
  "repeat_command = top_command ''repeat'' [client_param, message_param, count_param] 0"

definition typed_command :: command where
  "typed_command = top_command ''typed'' [client_param, message_param, typed_param] 0"

definition name_param :: param where
  "name_param = \<lparr>pname = ''name'', kind = POSITIONAL_OR_KEYWORD, annotation = Func str_coerce, default_value = Some PNone\<rparr>"

definition sub_command :: "string \<Rightarrow> param list \<Rightarrow> nat \<Rightarrow> command \<Rightarrow> command" where
  "sub_command nm sg a par = Command nm None ''Undocumented.'' (handler nm sg) a (Some par) False None PStr"

text \<open>The command \<open>plugin\<close> of the builtin plugin with its sub-commands.\<close>

definition plugin_command :: command where
  "plugin_command = top_command ''plugin'' [client_param, message_param] 1"

definition reload_command :: command where
  "reload_command = sub_command ''reload'' [client_param, message_param, name_param] 2 plugin_command"

definition load_command :: command where
  "load_command = sub_command ''load'' [client_param, message_param, word_param] 3 plugin_command"

definition unload_command :: command where
  "unload_command = sub_command ''unload'' [client_param, message_param, word_param] 4 plugin_command"

definition example_store :: store where
  "example_store a = (if a = 1 then [reload_command, load_command, unload_command] else [])"

text \<open>Registration from scratch: no module has commands, no list is allocated.\<close>

definition no_attr :: "string \<Rightarrow> commands_attr" where
  "no_attr md = NoAttr"

definition empty_store :: store where
  "empty_store a = []"

definition empty_registry :: registry where
  "empty_registry = \<lparr>commands_of = no_attr, lists = empty_store, next_list = 0, reg_log = []\<rparr>"

definition no_options :: options where
  "no_options =
     \<lparr>opt_name = None, opt_hidden = None, opt_parent = None, opt_error = None,
      opt_pos_check = None, opt_description = None, opt_usage = None\<rparr>"

definition plugin_handler :: pyfunc where
  "plugin_handler = handler ''plugin_'' [client_param, message_param]"

definition reload_handler :: pyfunc where
  "reload_handler = handler ''reload'' [client_param, message_param, name_param]"

definition example_doc :: string where
  "example_doc = ''  Manage plugins.  /'' @ [newline] @ ''  Owner command'' @ [newline] @ [newline] @ ''unless no argument. ''"

definition documented_handler :: pyfunc where
  "documented_handler = (handler ''plugin_'' [client_param, message_param])\<lparr>func_doc := Some example_doc\<rparr>"

text \<open>A plugin with an \<open>on_message\<close> hook that always reports the message as handled.\<close>

definition always_handled :: "message \<Rightarrow> string list \<Rightarrow> pyexc + pyval" where
  "always_handled m as = Inr (PBool True)"

definition echo_plugin :: pymodule where
  "echo_plugin = \<lparr>mod_name = ''echo'', on_message_attr = Some always_handled, has_cmd_help = False\<rparr>"

definition empty_manager :: manager where
  "empty_manager = \<lparr>plugins = [], mgr_log = []\<rparr>"

definition example_manager :: manager where
  "example_manager = \<lparr>plugins = [(''echo'', echo_plugin)], mgr_log = []\<rparr>"

section \<open>The reformatting rule for documentation text, in the specification's words\<close>

text \<open>
  Line by line: a line that ends with the continuation marker (two spaces and a slash)
  gives its text without the marker and a line break; a blank line gives a paragraph
  break; any other line gives its text and one space. Text is taken without the white
  space around it.
\<close>

definition reformat_line :: "string \<Rightarrow> string" where
  "reformat_line line =
     (if py_endswith line ''  /'' then py_strip (take (length line - 3) line) @ [newline]
      else if py_strip line = [] then [newline, newline]
      else py_strip line @ '' '')"

definition reformat :: "string \<Rightarrow> string" where
  "reformat doc = concat (map reformat_line (py_split newline doc))"

section \<open>Properties of the binder\<close>

text \<open>The slice \<open>cmd_args[a:-0]\<close> is \<open>cmd_args[a:0]\<close>: it is empty.\<close>

lemma py_slice_to_zero: "py_slice xs a (- int 0) = []"
  by (simp add: py_slice_def slice_bound_def)

text \<open>
  Claim C1. A star parameter should take every remaining token but the trailing ones kept
  for the keyword-only parameters, so every remaining token when there is no keyword-only
  parameter. The code slices \<open>cmd_args[index - 1:-num_kwargs]\<close>; with no keyword-only
  parameter the upper bound is \<open>0\<close> and the slice is empty. For the handler
  \<open>say(client, message, *words: str)\<close> and the message \<open>!say a b\<close> the binder returns no
  positional argument at all, where the claim has \<open>a\<close> and \<open>b\<close> bound.
\<close>

theorem variadic_without_keyword_only_binds_nothing:
  "parse_command_args example_env say_command [''!say'', ''a'', ''b''] 0 example_message
     = Inr ([], [], False)"
  by (simp add: say_command_def top_command_def handler_def client_param_def message_param_def
      words_param_def example_env_def example_message_def str_coerce_def
      parse_command_args_def conclude_def count_kwargs_def init_state_def
      after_loop_def parse_annotation_def try_call_def py_slice_def slice_bound_def bind_default_def
      complete_def)

text \<open>
  Claim C2. A handler with a star parameter and no required fixed parameter should bind
  completely whatever tokens follow the command name. The code never does for
  \<open>say(client, message, *words: str)\<close>: with no token after the name the loop breaks
  before the star branch (so \<open>has_pos\<close> stays false and one argument counts as missing),
  and with tokens the empty slice leaves \<open>num_pos_args = 0\<close>, so \<open>num_args\<close> is lowered to
  0 while \<open>num_given\<close> is 1.
\<close>

theorem variadic_only_handler_never_complete:
  "\<not> complete (parse_command_args e say_command cmd_args start m)"
proof (cases "2 \<le> length cmd_args")
  case True
  then show ?thesis
    by (simp add: say_command_def top_command_def handler_def client_param_def
        message_param_def words_param_def 
      parse_command_args_def conclude_def count_kwargs_def init_state_def
      after_loop_def parse_annotation_def try_call_def py_slice_def slice_bound_def bind_default_def
      complete_def)
next
  case False
  then show ?thesis
    by (simp add: say_command_def top_command_def handler_def client_param_def
        message_param_def words_param_def 
      parse_command_args_def conclude_def count_kwargs_def init_state_def
      after_loop_def parse_annotation_def try_call_def py_slice_def slice_bound_def bind_default_def
      complete_def)
qed

text \<open>
  The loop over required positional parameters, from any state behind the two
  infrastructure parameters: the verdict is \<open>complete\<close> exactly when a token is there for
  each parameter and each annotation yields a value.
\<close>

lemma required_loop:
  assumes "\<forall>p \<in> set ps. kind p = POSITIONAL_OR_KEYWORD \<and> default_value p = None"
    and "1 \<le> index st" and "\<not> has_pos st"
    and "int (length sig) = index st + 1 + int (length ps)"
  shows "complete (conclude sig (params_loop e m cmd_args start k ps st)) \<longleftrightarrow>
           (length ps \<le> length cmd_args - nat (index st) \<and>
            (\<forall>i < length ps. yields e (ps ! i) (cmd_args ! (nat (index st) + i)) (index st + int i + start) m))"
  using assms
proof (induction ps arbitrary: st)
  case Nil
  then show ?case by (simp add: conclude_def complete_def after_loop_def)
next
  case (Cons p ps)
  let ?st1 = "st\<lparr>index := index st + 1\<rparr>"
  have kp: "kind p = POSITIONAL_OR_KEYWORD" and dp: "default_value p = None"
    using Cons.prems(1) by simp_all
  show ?case
  proof (cases "index st + 1 \<le> int (length cmd_args)")
    case False
    have "params_loop e m cmd_args start k (p # ps) st = Inr (Broke st)"
      using False Cons.prems(2) dp by (simp add: Let_def)
    moreover have "\<not> Suc (length ps) \<le> length cmd_args - nat (index st)"
      using False Cons.prems(2) by linarith
    ultimately show ?thesis
      using Cons.prems(3,4) by (simp add: conclude_def complete_def after_loop_def)
  next
    case True
    note avail = True
    let ?tok = "cmd_args ! nat (index st)"
    show ?thesis
    proof (cases "parse_annotation e p ?tok (index st + start) m")
      case (Inl x)
      have "params_loop e m cmd_args start k (p # ps) st = Inl x"
        using avail Cons.prems(2) kp Inl by (simp add: Let_def)
      moreover have "\<not> yields e p ?tok (index st + start) m"
        using Inl by (simp add: yields_def)
      ultimately show ?thesis
        by (auto simp: conclude_def complete_def)
    next
      case (Inr v)
      show ?thesis
      proof (cases "v = PNone")
        case True
        have "params_loop e m cmd_args start k (p # ps) st = Inr (ForceQuit ?st1)"
          using avail Cons.prems(2) kp dp Inr True by (simp add: Let_def)
        moreover have "\<not> yields e p ?tok (index st + start) m"
          using Inr True by (simp add: yields_def)
        ultimately show ?thesis
          by (auto simp: conclude_def complete_def)
      next
        case False
        let ?st2 = "?st1\<lparr>args := args ?st1 @ [v]\<rparr>"
        have step: "params_loop e m cmd_args start k (p # ps) st = params_loop e m cmd_args start k ps ?st2"
          using avail Cons.prems(2) kp Inr False by (simp add: Let_def)
        have y: "yields e p ?tok (index st + start) m"
          using Inr False by (simp add: yields_def)
        have ih: "complete (conclude sig (params_loop e m cmd_args start k ps ?st2)) \<longleftrightarrow>
           (length ps \<le> length cmd_args - nat (index ?st2) \<and>
            (\<forall>i < length ps. yields e (ps ! i) (cmd_args ! (nat (index ?st2) + i)) (index ?st2 + int i + start) m))"
          using Cons.prems by (intro Cons.IH) simp_all
        have n: "nat (index st + 1) = Suc (nat (index st))"
          using Cons.prems(2) by simp
        have len: "length ps \<le> length cmd_args - Suc (nat (index st)) \<longleftrightarrow>
            Suc (length ps) \<le> length cmd_args - nat (index st)"
          using avail Cons.prems(2) by linarith
        have all: "(\<forall>i < Suc (length ps). yields e ((p # ps) ! i) (cmd_args ! (nat (index st) + i)) (index st + int i + start) m)
            \<longleftrightarrow> (\<forall>i < length ps. yields e (ps ! i) (cmd_args ! (Suc (nat (index st)) + i)) (index st + 1 + int i + start) m)"
          using y by (simp add: All_less_Suc2 algebra_simps)
        show ?thesis
          using ih step n len all by (simp add: algebra_simps)
      qed
    qed
  qed
qed

text \<open>
  Claim C3, as amended. For a handler with exactly \<open>N\<close> positional parameters behind the
  two infrastructure parameters, none with a default, the binder's verdict is \<open>complete\<close>
  if and only if at least \<open>N\<close> tokens follow the first (command name) token and the
  annotation of each parameter yields a value for its token. Tokens beyond the \<open>N\<close>-th are
  ignored. An annotation that raises gives no verdict at all, hence not \<open>complete\<close>.
\<close>

theorem required_positional_complete_iff:
  assumes "signature (func cmd) = c # ms # ps"
    and "is_DiscordClient (annotation c)" and "is_DiscordMessage (annotation ms)"
    and "\<forall>p \<in> set ps. kind p = POSITIONAL_OR_KEYWORD \<and> default_value p = None"
  shows "complete (parse_command_args e cmd cmd_args start m) \<longleftrightarrow>
           (length ps \<le> length (tl cmd_args) \<and>
            (\<forall>i < length ps. yields e (ps ! i) (tl cmd_args ! i) (int i + 1 + start) m))"
proof -
  let ?k = "count_kwargs (signature (func cmd))"
  let ?st = "init_state\<lparr>index := 1\<rparr>"
  have "params_loop e m cmd_args start ?k (c # ms # ps) init_state = params_loop e m cmd_args start ?k ps ?st"
    using assms(2,3) by (simp add: init_state_def Let_def)
  then have "complete (parse_command_args e cmd cmd_args start m) \<longleftrightarrow>
     complete (conclude (c # ms # ps) (params_loop e m cmd_args start ?k ps ?st))"
    using assms(1) by (simp add: parse_command_args_def Let_def)
  also have "\<dots> \<longleftrightarrow> (length ps \<le> length cmd_args - nat (index ?st) \<and>
            (\<forall>i < length ps. yields e (ps ! i) (cmd_args ! (nat (index ?st) + i)) (index ?st + int i + start) m))"
    using assms(4) by (intro required_loop) (simp_all add: init_state_def)
  also have "\<dots> \<longleftrightarrow> (length ps \<le> length (tl cmd_args) \<and>
            (\<forall>i < length ps. yields e (ps ! i) (tl cmd_args ! i) (int i + 1 + start) m))"
    by (auto simp: nth_tl algebra_simps)
  finally show ?thesis .
qed

theorem required_positional_complete_iff_witness:
  "signature (func echo_command) = client_param # message_param # [word_param] \<and>
   is_DiscordClient (annotation client_param) \<and> is_DiscordMessage (annotation message_param) \<and>
   kind word_param = POSITIONAL_OR_KEYWORD \<and> default_value word_param = None \<and>
   yields example_env word_param ''a'' 1 example_message \<and>
   complete (parse_command_args example_env echo_command [''!echo'', ''a'', ''b''] 0 example_message)"
proof -
  have sg: "signature (func echo_command) = client_param # message_param # [word_param]"
    by (simp add: echo_command_def top_command_def handler_def)
  have c: "is_DiscordClient (annotation client_param)" by (simp add: client_param_def)
  have ms: "is_DiscordMessage (annotation message_param)" by (simp add: message_param_def)
  have ps: "\<forall>p \<in> set [word_param]. kind p = POSITIONAL_OR_KEYWORD \<and> default_value p = None"
    by (simp add: word_param_def)
  have y: "yields example_env word_param ''a'' 1 example_message"
    by (simp add: yields_def parse_annotation_def try_call_def word_param_def str_coerce_def)
  show ?thesis
    using required_positional_complete_iff
        [OF sg c ms ps, of example_env "[''!echo'', ''a'', ''b'']" 0 example_message]
      sg c ms ps y by simp
qed

text \<open>
  The claim as it was stated asks for exactly \<open>N\<close> tokens. The handler
  \<open>echo(client, message, word: str)\<close> has \<open>N = 1\<close>; the message \<open>!echo a b\<close> carries two
  tokens behind the name and binds completely.
\<close>

theorem exact_token_count_counterexample:
  "\<not> (complete (parse_command_args example_env echo_command [''!echo'', ''a'', ''b''] 0 example_message)
       \<longleftrightarrow> (length (tl [''!echo'', ''a'', ''b'']) = length [word_param] \<and>
            yields example_env word_param ''a'' 1 example_message))"
  by (simp add: echo_command_def top_command_def handler_def client_param_def message_param_def
      word_param_def example_env_def example_message_def str_coerce_def yields_def
      parse_command_args_def conclude_def count_kwargs_def init_state_def
      after_loop_def parse_annotation_def try_call_def py_slice_def slice_bound_def bind_default_def
      complete_def)

text \<open>
  The loop over a signature \<open>pre @ rest\<close> runs through \<open>pre\<close> and, when that part is not
  left early, goes on with \<open>rest\<close> from the state reached.
\<close>

lemma params_loop_append:
  "params_loop e m cmd_args start k (pre @ rest) st0 =
     (case params_loop e m cmd_args start k pre st0 of
        Inr (Completed st) \<Rightarrow> params_loop e m cmd_args start k rest st
      | r \<Rightarrow> r)"
proof (induction pre arbitrary: st0)
  case Nil
  show ?case by simp
next
  case (Cons p pre)
  show ?case
    by (simp add: Let_def Cons.IH split: sum.splits option.splits)
qed

lemma try_call_other:
  "f tok = Inl x \<Longrightarrow> \<not> is_TypeError x \<Longrightarrow> try_call f tok = Inr PNone"
  by (simp add: try_call_def)

text \<open>
  Claim C4, as amended. Let a parameter \<open>p\<close> be annotated with a coercion function \<open>f\<close>,
  positional or keyword-only, and let binding reach it in state \<open>st\<close> with a token at the
  cursor. If \<open>f\<close> raises on that token an exception other than \<open>TypeError\<close>, the annotation
  step gives \<open>None\<close> and raises nothing; then without a default the binder returns at once
  with the arguments bound so far and \<open>complete = False\<close>, and with a default \<open>d\<close> it
  binds \<open>d\<close> and goes on with the next parameter. (A \<open>TypeError\<close> is raised again, see the
  counterexample.)
\<close>

theorem coercion_exception_is_no_value:
  assumes sig: "signature (func cmd) = pre @ p # ps"
    and reach: "params_loop e m cmd_args start (count_kwargs (signature (func cmd))) pre init_state
                  = Inr (Completed st)"
    and lo: "1 \<le> index st" and hi: "index st < int (length cmd_args)"
    and kd: "kind p = POSITIONAL_OR_KEYWORD \<or> kind p = KEYWORD_ONLY"
    and an: "annotation p = Func f"
    and exc: "f (cmd_args ! nat (index st)) = Inl x" and nt: "\<not> is_TypeError x"
  shows "parse_annotation e p (cmd_args ! nat (index st)) i m = Inr PNone \<and>
         (default_value p = None \<longrightarrow>
            parse_command_args e cmd cmd_args start m = Inr (args st, kwargs st, False)) \<and>
         (\<forall>d. default_value p = Some d \<longrightarrow>
            parse_command_args e cmd cmd_args start m =
              conclude (signature (func cmd))
                (params_loop e m cmd_args start (count_kwargs (signature (func cmd))) ps
                   (bind_default p d (st\<lparr>index := index st + 1\<rparr>))))"
proof -
  let ?k = "count_kwargs (signature (func cmd))"
  have pa: "parse_annotation e p (cmd_args ! nat (index st)) j m = Inr PNone" for j
    using an exc nt by (simp add: parse_annotation_def try_call_other)
  have whole: "parse_command_args e cmd cmd_args start m =
      conclude (signature (func cmd)) (params_loop e m cmd_args start ?k (p # ps) st)"
    using reach by (simp add: parse_command_args_def Let_def sig params_loop_append)
  have none: "params_loop e m cmd_args start ?k (p # ps) st = Inr (ForceQuit (st\<lparr>index := index st + 1\<rparr>))"
    if "default_value p = None"
    using that lo hi kd pa by (auto simp: Let_def)
  have some: "params_loop e m cmd_args start ?k (p # ps) st =
      params_loop e m cmd_args start ?k ps (bind_default p d (st\<lparr>index := index st + 1\<rparr>))"
    if "default_value p = Some d" for d
    using that lo hi kd pa by (auto simp: Let_def bind_default_def)
  show ?thesis
    using pa whole none some by (simp add: conclude_def)
qed

theorem coercion_exception_is_no_value_witness:
  "parse_annotation example_env count_param ''abc'' 1 example_message = Inr PNone \<and>
   parse_command_args example_env repeat_command [''!repeat'', ''abc''] 0 example_message
     = Inr ([], [], False)"
proof -
  have sig: "signature (func repeat_command) = [client_param, message_param] @ count_param # []"
    by (simp add: repeat_command_def top_command_def handler_def)
  have reach: "params_loop example_env example_message [''!repeat'', ''abc''] 0
      (count_kwargs (signature (func repeat_command))) [client_param, message_param] init_state
      = Inr (Completed (init_state\<lparr>index := 1\<rparr>))"
    by (simp add: client_param_def message_param_def init_state_def)
  have exc: "digits_only ([''!repeat'', ''abc''] ! nat (index (init_state\<lparr>index := 1\<rparr>)))
      = Inl (ValueError ''not a number'')"
    by (simp add: digits_only_def init_state_def)
  show ?thesis
    using coercion_exception_is_no_value
        [where cmd = repeat_command and pre = "[client_param, message_param]" and p = count_param
          and ps = "[]" and e = example_env and m = example_message
          and cmd_args = "[''!repeat'', ''abc'']" and start = 0
          and st = "init_state\<lparr>index := 1\<rparr>" and f = digits_only
          and x = "ValueError ''not a number''" and i = 1, OF sig reach _ _ _ _ exc]
    by (simp add: count_param_def init_state_def)
qed

text \<open>
  The claim as it was stated has every exception turned into "no value". The handler
  \<open>typed(client, message, value: wrong_type = None)\<close> has a coercion function that raises
  \<open>TypeError\<close>; on \<open>!typed abc\<close> the binder raises \<open>TypeError\<close> and does not bind the default.
\<close>

theorem coercion_type_error_propagates:
  "parse_command_args example_env typed_command [''!typed'', ''abc''] 0 example_message =
     Inl (TypeError ''Command parameter annotation must be either pcbot.utils.Annotate or a function'')"
  by (simp add: typed_command_def top_command_def handler_def client_param_def message_param_def
      typed_param_def example_env_def example_message_def wrong_type_def
      parse_command_args_def conclude_def count_kwargs_def init_state_def
      after_loop_def parse_annotation_def try_call_def py_slice_def slice_bound_def bind_default_def
      complete_def)

section \<open>Properties of sub-command resolution\<close>

lemma py_slice_tail: "py_slice xs 1 (int (length xs)) = tl xs"
  by (cases xs) (simp_all add: py_slice_def slice_bound_def)

lemma get_sub_command_tl:
  "get_sub_command h cmd cmd_args =
     (fst (foldl (sub_step h) (cmd, 0) (tl cmd_args)),
      drop (snd (foldl (sub_step h) (cmd, 0) (tl cmd_args))) cmd_args,
      snd (foldl (sub_step h) (cmd, 0) (tl cmd_args)))"
  unfolding get_sub_command_def py_slice_tail by (simp add: Let_def)

lemma sub_step_skip:
  "arg \<notin> set (map name (h (sub_commands (fst cn)))) \<Longrightarrow> sub_step h cn arg = cn"
  by (simp add: sub_step_def)

lemma list_index_find:
  "find (\<lambda>c. name c = arg) cs = Some sub \<Longrightarrow>
     arg \<in> set (map name cs) \<and> cs ! list_index (map name cs) arg = sub"
  by (induction cs) (auto split: if_splits)

lemma sub_step_descend:
  "find (\<lambda>c. name c = arg) (h (sub_commands c)) = Some sub \<Longrightarrow> sub_step h (c, n) arg = (sub, Suc n)"
  using list_index_find [of arg "h (sub_commands c)" sub] by (simp add: sub_step_def)

lemma foldl_skip:
  "\<forall>t \<in> set ts. t \<notin> set (map name (h (sub_commands (fst cn)))) \<Longrightarrow> foldl (sub_step h) cn ts = cn"
  by (induction ts) (simp_all add: sub_step_skip)

lemma foldl_count:
  "foldl (sub_step h) (c, n + k) ts =
     (fst (foldl (sub_step h) (c, n) ts), snd (foldl (sub_step h) (c, n) ts) + k)"
proof (induction ts arbitrary: c n)
  case Nil
  show ?case by simp
next
  case (Cons t ts)
  have "sub_step h (c, n + k) t = (fst (sub_step h (c, n) t), snd (sub_step h (c, n) t) + k)"
    by (simp add: sub_step_def Let_def)
  then show ?case
    using Cons.IH [of "fst (sub_step h (c, n) t)" "snd (sub_step h (c, n) t)"] by simp
qed

text \<open>The tokens handed on are the given ones without as many leading tokens as descents.\<close>

lemma get_sub_command_rest:
  "(case get_sub_command h cmd cmd_args of (c, rest, n) \<Rightarrow> rest = drop n cmd_args)"
  by (simp add: get_sub_command_tl)

text \<open>
  Claim C10. The walk goes through the tokens behind the first one in order. Tokens that
  name no sub-command of the current command are passed over; at the first token \<open>tok\<close>
  that names one, the walk descends into the first sub-command \<open>sub\<close> of that name and
  goes on with the tokens behind \<open>tok\<close>. Each descent adds one to the count, and the count
  is the number of tokens dropped from the front of the whole list: not \<open>tok\<close> is
  removed but the leading token. In particular, when no later token names a sub-command
  of \<open>sub\<close>, the result is \<open>sub\<close> with all tokens but the first, \<open>skipped\<close> and \<open>tok\<close>
  included.
\<close>

theorem sub_command_resolution:
  assumes skip: "\<forall>t \<in> set skipped. t \<notin> set (map name (h (sub_commands cmd)))"
    and hit: "find (\<lambda>c. name c = tok) (h (sub_commands cmd)) = Some sub"
  shows "get_sub_command h cmd (first # skipped @ tok # toks) =
           (case get_sub_command h sub (first # toks) of
              (c, rest, n) \<Rightarrow> (c, drop (Suc n) (first # skipped @ tok # toks), Suc n)) \<and>
         ((\<forall>t \<in> set toks. t \<notin> set (map name (h (sub_commands sub)))) \<longrightarrow>
            get_sub_command h cmd (first # skipped @ tok # toks) = (sub, skipped @ tok # toks, 1))"
proof -
  have "foldl (sub_step h) (cmd, 0) (skipped @ tok # toks) = foldl (sub_step h) (sub, Suc 0) toks"
    using skip hit by (simp add: foldl_skip sub_step_descend)
  also have "\<dots> = (fst (foldl (sub_step h) (sub, 0) toks), snd (foldl (sub_step h) (sub, 0) toks) + 1)"
    using foldl_count [of h sub 0 1 toks] by simp
  finally have walk: "foldl (sub_step h) (cmd, 0) (skipped @ tok # toks) =
      (fst (foldl (sub_step h) (sub, 0) toks), Suc (snd (foldl (sub_step h) (sub, 0) toks)))"
    by simp
  have one: "get_sub_command h cmd (first # skipped @ tok # toks) =
           (case get_sub_command h sub (first # toks) of
              (c, rest, n) \<Rightarrow> (c, drop (Suc n) (first # skipped @ tok # toks), Suc n))"
    using walk unfolding get_sub_command_tl by (simp del: foldl_append)
  have two: "get_sub_command h cmd (first # skipped @ tok # toks) = (sub, skipped @ tok # toks, 1)"
    if "\<forall>t \<in> set toks. t \<notin> set (map name (h (sub_commands sub)))"
  proof -
    have "foldl (sub_step h) (sub, 0) toks = (sub, 0)"
      using that by (simp add: foldl_skip)
    then show ?thesis
      using walk unfolding get_sub_command_tl by (simp del: foldl_append)
  qed
  show ?thesis
    using one two by blast
qed

text \<open>
  The message \<open>!plugin math reload\<close>: the walk passes over \<open>math\<close>, descends at
  \<open>reload\<close>, and hands on the tokens from \<open>math\<close>; the binder then takes its first
  argument from the position behind \<open>math\<close>.
\<close>

theorem sub_command_resolution_witness:
  "get_sub_command example_store plugin_command [''!plugin'', ''math'', ''reload'']
     = (reload_command, [''math'', ''reload''], 1) \<and>
   parse_command_args example_env reload_command [''math'', ''reload''] 1 example_message
     = Inr ([PStr ''reload''], [], True)"
proof -
  have names: "map name (example_store (sub_commands plugin_command)) = [''reload'', ''load'', ''unload'']"
    by (simp add: example_store_def plugin_command_def top_command_def reload_command_def
        load_command_def unload_command_def sub_command_def)
  have skip: "\<forall>t \<in> set [''math'']. t \<notin> set (map name (example_store (sub_commands plugin_command)))"
    unfolding names by simp
  have hit: "find (\<lambda>c. name c = ''reload'') (example_store (sub_commands plugin_command)) = Some reload_command"
    by (simp add: example_store_def plugin_command_def top_command_def reload_command_def sub_command_def)
  have leaf: "\<forall>t \<in> set []. t \<notin> set (map name (example_store (sub_commands reload_command)))"
    by simp
  have walk: "get_sub_command example_store plugin_command [''!plugin'', ''math'', ''reload'']
     = (reload_command, [''math'', ''reload''], 1)"
    using sub_command_resolution
        [where h = example_store and cmd = plugin_command and skipped = "[''math'']"
          and tok = "''reload''" and sub = reload_command and first = "''!plugin''" and toks = "[]",
          OF skip hit, THEN conjunct2] leaf
    by simp
  have bind: "parse_command_args example_env reload_command [''math'', ''reload''] 1 example_message
     = Inr ([PStr ''reload''], [], True)"
    by (simp add: reload_command_def sub_command_def name_param_def handler_def client_param_def
        message_param_def example_env_def example_message_def str_coerce_def
      parse_command_args_def conclude_def count_kwargs_def init_state_def
      after_loop_def parse_annotation_def try_call_def py_slice_def slice_bound_def bind_default_def
      complete_def)
  show ?thesis
    using walk bind by simp
qed

section \<open>Properties of registration\<close>

text \<open>
  Claim C5. A second command of the same name under the same parent should be refused.
  The check of the code looks at the top-level commands of the plugin only, whatever the
  parent. Registering \<open>plugin\<close> and then twice a sub-command from the handler \<open>reload\<close>
  under it succeeds three times, and the \<open>sub_commands\<close> list of \<open>plugin\<close> then holds two
  commands named \<open>reload\<close>.
\<close>

theorem duplicate_sub_command_accepted:
  "(case decorator example_env (no_options\<lparr>opt_name := Some ''plugin''\<rparr>) plugin_handler empty_registry of
      Inl x \<Rightarrow> False
    | Inr (par, r1) \<Rightarrow>
        (case decorator example_env (no_options\<lparr>opt_parent := Some par\<rparr>) reload_handler r1 of
           Inl x \<Rightarrow> False
         | Inr (c1, r2) \<Rightarrow>
             (case decorator example_env (no_options\<lparr>opt_parent := Some par\<rparr>) reload_handler r2 of
                Inl x \<Rightarrow> False
              | Inr (c2, r3) \<Rightarrow> map name (lists r3 (sub_commands par)) = [''reload'', ''reload''])))"
  by (simp add: decorator_def no_options_def plugin_handler_def reload_handler_def
      handler_def empty_registry_def no_attr_def empty_store_def make_description_def
      raw_description_def make_usage_def example_env_def Let_def)

text \<open>
  For top-level commands the check does what the claim says: after a top-level command
  is registered, a registration under the same name from the same module raises, and
  an exception leaves the registry as it was.
\<close>

lemma duplicate_top_level_rejected:
  assumes "decorator e opts f r = Inr (c, r')" and "opt_parent opts = None"
    and "func_module f' = func_module f"
    and "(case opt_name opts' of Some n \<Rightarrow> n | None \<Rightarrow> func_name f') = name c"
  shows "decorator e opts' f' r' = Inl (PyException ''You can't assign two commands with the same name'')"
  using assms
  by (auto simp: decorator_def Let_def split: option.splits commands_attr.splits if_splits)

text \<open>The loop over the lines of a docstring against the rule in the specification's words.\<close>

lemma py_slice_butlast: "py_slice xs 0 (- 1) = butlast xs"
proof -
  have "nat (max (int (length xs) + - 1) 0) = length xs - 1"
    by linarith
  then show ?thesis
    by (simp add: py_slice_def slice_bound_def butlast_conv_take)
qed

lemma py_strip_snoc_space:
  assumes "is_space c"
  shows "py_strip (b @ [c]) = py_strip b"
proof (cases "\<forall>x \<in> set b. is_space x")
  case True
  have 1: "dropWhile is_space (b @ [c]) = []"
    using True assms by simp
  have 2: "dropWhile is_space b = []"
    using True by simp
  show ?thesis
    unfolding py_strip_def 1 2 by simp
next
  case False
  then obtain x where "x \<in> set b" and "\<not> is_space x"
    by blast
  then have "dropWhile is_space (b @ [c]) = dropWhile is_space b @ [c]"
    by (rule dropWhile_append1)
  then show ?thesis
    using assms by (simp add: py_strip_def)
qed

lemma marker_line:
  assumes "py_endswith line ''  /''"
  shows "py_strip (butlast line) = py_strip (take (length line - 3) line)"
proof -
  let ?b = "take (length line - 3) line"
  have "line = ?b @ ''  /''"
    using assms by (metis append_take_drop_id py_endswith_def length_Cons list.size(3) numeral_3_eq_3)
  then have "butlast line = (?b @ '' '') @ '' ''"
    by (metis append.assoc append_Cons append_Nil butlast_append butlast_snoc list.distinct(1) butlast.simps(2))
  moreover have "is_space CHR '' ''"
    by (simp add: is_space_def)
  ultimately show ?thesis
    by (simp only: py_strip_snoc_space)
qed

lemma format_line_reformat: "format_line acc line = acc @ reformat_line line"
  by (simp add: format_line_def reformat_line_def py_slice_butlast marker_line)

lemma foldl_format_line: "foldl format_line acc ls = acc @ concat (map reformat_line ls)"
  by (induction ls arbitrary: acc) (simp_all add: format_line_reformat)

lemma split_example:
  "py_split newline example_doc = [''  Manage plugins.  /'', ''  Owner command'', [], ''unless no argument. '']"
  by (simp add: example_doc_def newline_def)

lemma reformat_example:
  "reformat example_doc =
     ''Manage plugins.'' @ [newline] @ ''Owner command '' @ [newline, newline] @ ''unless no argument. ''"
  by (simp add: reformat_def split_example reformat_line_def py_endswith_def py_strip_def is_space_def)

text \<open>
  Claim C9, as amended. For every command registered without an explicit description
  whose handler has a documentation text that is not empty, the description is that text
  rewritten line by line: a line ending with the continuation marker gives its text
  without the marker and a forced line break, a blank line gives a paragraph break, any
  other line gives its text and a single space.
\<close>

theorem description_from_docstring:
  assumes "decorator e opts f r = Inr (c, r')"
    and "opt_description opts = None" and "func_doc f = Some doc" and "doc \<noteq> []"
  shows "description c = reformat doc"
proof -
  have "make_description opts f = format_docstring doc"
    using assms(2,3,4) by (simp add: make_description_def raw_description_def)
  moreover have "description c = make_description opts f"
    using assms(1) by (auto simp: decorator_def Let_def split: option.splits if_splits)
  ultimately show ?thesis
    by (simp add: format_docstring_def reformat_def foldl_format_line)
qed

theorem description_from_docstring_witness:
  "map_sum id (description \<circ> fst) (decorator example_env no_options documented_handler empty_registry)
     = Inr (''Manage plugins.'' @ [newline] @ ''Owner command '' @ [newline, newline] @ ''unless no argument. '')"
proof -
  obtain c r where d: "decorator example_env no_options documented_handler empty_registry = Inr (c, r)"
    by (simp add: decorator_def no_options_def documented_handler_def handler_def
      empty_registry_def no_attr_def Let_def)
  have "example_doc \<noteq> []"
    by (simp add: example_doc_def)
  then have "description c = reformat example_doc"
    using description_from_docstring [OF d, of example_doc]
    by (simp add: no_options_def documented_handler_def handler_def)
  then show ?thesis
    using d by (simp add: reformat_example)
qed

text \<open>
  The claim as it was stated covers every command registered without an explicit
  description. A handler with no documentation text has none to derive from: its
  command gets the fixed description \<open>Undocumented.\<close>
\<close>

theorem undocumented_handler_counterexample:
  "func_doc plugin_handler = None \<and>
   map_sum id (description \<circ> fst) (decorator example_env no_options plugin_handler empty_registry)
     = Inr ''Undocumented.''"
  by (simp add: decorator_def no_options_def plugin_handler_def
      handler_def empty_registry_def no_attr_def empty_store_def make_description_def
      raw_description_def make_usage_def example_env_def Let_def)

section \<open>Properties of the plugin manager\<close>

text \<open>
  Claim C7, as amended. For a plugin name that is not of the reserved form (two
  underscores at both ends) and whose import raises \<open>ImportError\<close>, \<open>load_plugin\<close> raises
  nothing and returns \<open>False\<close>; it logs a warning that carries the formatted exception,
  and it leaves the loaded plugins as they were (so the plugin is absent afterwards when
  it was absent before).
\<close>

theorem load_plugin_import_error:
  assumes "import_module e (package @ ''.'' @ nm) = Inl x" and "is_ImportError x"
    and "\<not> (py_startswith nm ''__'' \<and> py_endswith nm ''__'')"
  shows "load_plugin e nm package mg =
           Inr (False, mg\<lparr>mgr_log := mgr_log mg @
                  [(WARNING, ''COULD NOT LOAD PLUGIN '' @ nm @ [newline] @ utils_format_exception e x)]\<rparr>)"
  using assms by (auto simp: load_plugin_def)

theorem load_plugin_import_error_witness:
  "load_plugin example_env ''ghost'' ''plugins'' empty_manager =
     Inr (False, \<lparr>plugins = [], mgr_log = [(WARNING, ''COULD NOT LOAD PLUGIN ghost'' @ [newline] @ ''Traceback'')]\<rparr>)"
proof -
  have a: "import_module example_env (''plugins'' @ ''.'' @ ''ghost'') = Inl (ImportError ''No module named plugins.ghost'')"
    by (simp add: example_env_def missing_module_def)
  have b: "\<not> (py_startswith ''ghost'' ''__'' \<and> py_endswith ''ghost'' ''__'')"
    by (simp add: py_startswith_def)
  show ?thesis
    using load_plugin_import_error [OF a _ b, of empty_manager]
    by (simp add: empty_manager_def example_env_def show_exception_def)
qed

text \<open>
  The claim as it was stated also covers a malformed unit. Its import raises an
  exception that is not \<open>ImportError\<close>, a \<open>SyntaxError\<close> for one, and \<open>load_plugin\<close>
  lets it through to the caller.
\<close>

theorem load_plugin_syntax_error_raises:
  "load_plugin broken_env ''broken'' ''plugins'' empty_manager = Inl (SyntaxError ''invalid syntax'')"
  by (simp add: load_plugin_def broken_env_def example_env_def broken_module_def py_startswith_def)

text \<open>
  Claim C8. Unloading a name that is not among the loaded plugins changes nothing: the
  plugins and the log stay as they are, and the function has no way to raise.
\<close>

theorem unload_not_loaded_is_noop:
  "nm \<notin> fst ` set (plugins mg) \<Longrightarrow> unload_plugin nm mg = mg"
  by (simp add: unload_plugin_def)

theorem unload_not_loaded_is_noop_witness:
  "''ghost'' \<notin> fst ` set (plugins example_manager) \<and>
   unload_plugin ''ghost'' example_manager = example_manager"
  using unload_not_loaded_is_noop [of "''ghost''" example_manager]
  by (simp add: example_manager_def)

section \<open>Properties of the dispatcher\<close>

text \<open>When the loop over the plugins ends without an exception, every hook has its task.\<close>

lemma plugins_loop_hooks:
  "plugins_loop e h ps cmd cmd_args m mods = (effs, None) \<Longrightarrow>
     \<forall>plugin \<in> set mods. on_message_attr plugin \<noteq> None \<longrightarrow>
        CreateTask (PluginMessageTask (mod_name plugin) cmd_args) \<in> set effs"
proof (induction mods arbitrary: effs)
  case Nil
  show ?case by simp
next
  case (Cons plugin rest)
  obtain e1 x1 where hc: "handle_command e h ps cmd cmd_args m plugin = (e1, x1)"
    by (cases "handle_command e h ps cmd cmd_args m plugin")
  obtain e2 x2 where pl: "plugins_loop e h ps cmd cmd_args m rest = (e2, x2)"
    by (cases "plugins_loop e h ps cmd cmd_args m rest")
  have x1: "x1 = None"
    using Cons.prems hc by (cases x1) simp_all
  let ?hook = "case on_message_attr plugin of
                 Some f \<Rightarrow> [CreateTask (PluginMessageTask (mod_name plugin) cmd_args)]
               | None \<Rightarrow> []"
  have res: "effs = e1 @ ?hook @ e2" and x2: "x2 = None"
    using Cons.prems hc pl x1 by (simp_all add: Let_def)
  have rest: "\<forall>q \<in> set rest. on_message_attr q \<noteq> None \<longrightarrow>
        CreateTask (PluginMessageTask (mod_name q) cmd_args) \<in> set e2"
    using Cons.IH [of e2] pl x2 by simp
  show ?case
    using rest res by (auto split: option.splits)
qed

text \<open>
  Claim C6, as amended. For every inbound message that is not the client's own and whose
  content is not empty, and every loaded plugin with an \<open>on_message\<close> hook: when the
  dispatch runs to its end without an exception, a task for that hook with the tokens of
  the message has been handed to the event loop, whether or not a command matched. And
  when the hook returns a true value, its task logs the message, with the prefix
  \<open>...\<close> in front.
\<close>

theorem message_hooks_scheduled:
  assumes "author m \<noteq> client_user e" and "content m \<noteq> []"
    and "on_message e h mg m = (effs, None)"
  shows "(\<exists>cmd_args. utils_split e (content m) None = Inr cmd_args \<and>
            (\<forall>plugin \<in> set (map snd (plugins mg)). on_message_attr plugin \<noteq> None \<longrightarrow>
               CreateTask (PluginMessageTask (mod_name plugin) cmd_args) \<in> set effs)) \<and>
         (\<forall>f as v. f m as = Inr v \<longrightarrow>
            on_plugin_message f m as = Inr (if truthy v then [log_message m ''... ''] else []))"
proof -
  obtain cmd_args where sp: "utils_split e (content m) None = Inr cmd_args"
    using assms by (cases "utils_split e (content m) None") (simp_all add: on_message_def)
  obtain first others where ca: "cmd_args = first # others"
    using assms sp by (cases cmd_args) (simp_all add: on_message_def)
  obtain cmd where "plugins_loop e h (plugins mg) cmd cmd_args m (map snd (plugins mg)) = (effs, None)"
    using assms sp ca by (simp add: on_message_def Let_def)
  then have "\<forall>plugin \<in> set (map snd (plugins mg)). on_message_attr plugin \<noteq> None \<longrightarrow>
               CreateTask (PluginMessageTask (mod_name plugin) cmd_args) \<in> set effs"
    by (rule plugins_loop_hooks)
  with sp show ?thesis
    by (simp add: on_plugin_message_def)
qed

lemma handle_no_command:
  "handle_command example_env h ps cmd cmd_args m plugin = ([], None)"
  by (simp add: handle_command_def example_env_def no_command_def)

lemma run_example:
  "on_message example_env example_store example_manager example_message
     = ([CreateTask (PluginMessageTask ''echo'' [''!say'', ''a'', ''b''])], None)"
proof -
  have s: "utils_split example_env (content example_message) None = Inr [''!say'', ''a'', ''b'']"
    by (simp add: example_env_def example_message_def space_split_def)
  have a: "author example_message \<noteq> client_user example_env"
    by (simp add: example_message_def example_env_def)
  have b: "content example_message \<noteq> []"
    by (simp add: example_message_def)
  have l: "plugins_loop example_env example_store (plugins example_manager) cmd
             [''!say'', ''a'', ''b''] example_message (map snd (plugins example_manager))
           = ([CreateTask (PluginMessageTask ''echo'' [''!say'', ''a'', ''b''])], None)" for cmd
    by (simp add: example_manager_def handle_no_command echo_plugin_def)
  show ?thesis
    unfolding on_message_def using a b by (simp add: s l Let_def)
qed

theorem message_hooks_scheduled_witness:
  "CreateTask (PluginMessageTask ''echo'' [''!say'', ''a'', ''b''])
     \<in> set (fst (on_message example_env example_store example_manager example_message)) \<and>
   on_plugin_message always_handled example_message [''!say'', ''a'', ''b'']
     = Inr [LogRecord INFO ''... @alice -> !say a b'']"
proof -
  have a: "author example_message \<noteq> client_user example_env"
    by (simp add: example_message_def example_env_def)
  have b: "content example_message \<noteq> []"
    by (simp add: example_message_def)
  have s: "utils_split example_env (content example_message) None = Inr [''!say'', ''a'', ''b'']"
    by (simp add: example_env_def example_message_def space_split_def)
  have p: "snd ` set (plugins example_manager) = {echo_plugin}"
    by (simp add: example_manager_def)
  have hk: "on_message_attr echo_plugin \<noteq> None" and nm: "mod_name echo_plugin = ''echo''"
    by (simp_all add: echo_plugin_def)
  have r: "always_handled example_message [''!say'', ''a'', ''b''] = Inr (PBool True)"
    by (simp add: always_handled_def)
  have l: "log_message example_message ''... '' = LogRecord INFO ''... @alice -> !say a b''"
    by (simp add: log_message_def example_message_def)
  from message_hooks_scheduled [OF a b run_example] s p hk nm
  have 1: "CreateTask (PluginMessageTask ''echo'' [''!say'', ''a'', ''b''])
     \<in> set (fst (on_message example_env example_store example_manager example_message))"
    by (simp add: run_example)
  from message_hooks_scheduled [OF a b run_example] r l
  have 2: "on_plugin_message always_handled example_message [''!say'', ''a'', ''b'']
     = Inr [LogRecord INFO ''... @alice -> !say a b'']"
    by simp
  show ?thesis using 1 2 by simp
qed

text \<open>
  The claim as it was stated covers every inbound message. A message of the client's own
  is dropped at the first test of \<open>on_message\<close>: nothing is scheduled, though a plugin
  with a hook is loaded.
\<close>

theorem own_message_counterexample:
  "on_message_attr echo_plugin = Some always_handled \<and>
   on_message example_env example_store example_manager own_message = ([], None)"
  by (simp add: on_message_def example_env_def own_message_def example_message_def echo_plugin_def)

end
